theory Spec2Isabelle
  imports Main
begin

section \<open>PaddleNLP \<open>model_utils.py\<close>: pretrained-model loading and saving\<close>

text \<open>
  A shallow embedding of \<open>paddlenlp/transformers/model_utils.py\<close>:
  \<open>register_base_model\<close>, \<open>PretrainedModel.from_pretrained\<close> and
  \<open>PretrainedModel.save_model_config\<close>.

  Python dictionaries are association lists in insertion order (the order matters to
  the source: it takes the first value of a dictionary, and it stops at the first
  matching item). Exceptions are values of the type \<open>error\<close>; a function that may raise
  returns \<open>error + 'a\<close> with \<open>Inl\<close> the exception.
\<close>

subsection \<open>Exceptions\<close>

datatype error =
    ValueError string "string list" string
      \<comment> \<open>the arguments of the message's format: class name, registry names, identifier\<close>
  | KeyError string
  | AttributeError string
  | AssertionError string
  | TypeError string
  | IndexError
  | External string
      \<comment> \<open>an exception raised inside a collaborator (downloader, file reader, constructor)\<close>

subsection \<open>Strings and paths\<close>

definition startswith :: "string \<Rightarrow> string \<Rightarrow> bool" where
  \<comment> \<open>\<open>s.startswith(p)\<close>\<close>
  "startswith s p = (take (length p) s = p)"

definition endswith :: "string \<Rightarrow> string \<Rightarrow> bool" where
  \<comment> \<open>\<open>s.endswith(p)\<close>\<close>
  "endswith s p = (length p \<le> length s \<and> drop (length s - length p) s = p)"

definition last_component :: "string \<Rightarrow> string" where
  \<comment> \<open>\<open>s.split('/')[-1]\<close>: what follows the last slash\<close>
  "last_component s = rev (takeWhile (\<lambda>c. c \<noteq> CHR ''/'') (rev s))"

definition path_join :: "string \<Rightarrow> string \<Rightarrow> string" where
  \<comment> \<open>\<open>os.path.join(a, b)\<close> of \<open>posixpath\<close>, for two components\<close>
  "path_join a b =
     (if startswith b ''/'' then b
      else if a = [] \<or> endswith a ''/'' then a @ b
      else a @ ''/'' @ b)"

subsection \<open>Dictionaries\<close>

fun dict_set :: "(string \<times> 'v) list \<Rightarrow> string \<Rightarrow> 'v \<Rightarrow> (string \<times> 'v) list" where
  \<comment> \<open>\<open>d[k] = v\<close>: an existing key keeps its place, a new key goes last\<close>
  "dict_set [] k v = [(k, v)]"
| "dict_set ((k', v') # d) k v =
     (if k' = k then (k, v) # d else (k', v') # dict_set d k v)"

definition dict_del :: "(string \<times> 'v) list \<Rightarrow> string \<Rightarrow> (string \<times> 'v) list" where
  "dict_del d k = filter (\<lambda>kv. fst kv \<noteq> k) d"

definition dict_pop :: "(string \<times> 'v) list \<Rightarrow> string \<Rightarrow> 'v option \<times> (string \<times> 'v) list" where
  \<comment> \<open>\<open>d.pop(k, None)\<close>: the value, if any, and the dictionary without the key\<close>
  "dict_pop d k = (map_of d k, dict_del d k)"

definition dict_update :: "(string \<times> 'v) list \<Rightarrow> (string \<times> 'v) list \<Rightarrow> (string \<times> 'v) list" where
  \<comment> \<open>\<open>d.update(e)\<close>\<close>
  "dict_update d e = fold (\<lambda>kv acc. dict_set acc (fst kv) (snd kv)) e d"

definition update_known ::
  "string list \<Rightarrow> (string \<times> 'v) list \<Rightarrow> (string \<times> 'v) list \<Rightarrow> (string \<times> 'v) list" where
  \<comment> \<open>\<open>for k, v in kwargs.items(): if k in parameters: d[k] = v\<close>\<close>
  "update_known parameters d kwargs =
     fold (\<lambda>kv acc. if fst kv \<in> set parameters then dict_set acc (fst kv) (snd kv) else acc)
       kwargs d"

subsection \<open>Values, layers and model instances\<close>

type_synonym tensor = int

text \<open>
  A layer of the tensor runtime, as far as this module looks at it: its own parameters
  and its named sub-layers, both of which are attributes of the layer.
\<close>

datatype layer = Layer (l_params: "(string \<times> tensor) list") (l_subs: "(string \<times> layer) list")

text \<open>
  The values of an init configuration: \<open>None\<close>, booleans, integers, strings, lists,
  tuples, dictionaries with string keys, and pretrained-model instances. Values are
  trees: no object is shared between two places. An instance carries its class name,
  its \<open>init_config\<close>, its layer and the names of its other attributes (methods, class
  attributes, buffers, plain instance attributes). The names of the sub-layers, of the
  parameters and of the other attributes are taken to be disjoint.
\<close>

datatype val =
    VNone
  | VBool bool
  | VInt int
  | VStr string
  | VList "val list"
  | VTuple "val list"
  | VDict "(string \<times> val) list"
  | VModel model
and model =
    Model (m_class: string) (init_config: "(string \<times> val) list") (m_layer: layer)
      (m_attrs: "string list")

subsection \<open>\<open>register_base_model\<close>\<close>

text \<open>
  A class is its name and its declared parents (\<open>__bases__\<close>), each a class again.
  Classes are told apart by name. The class attribute \<open>base_model_class\<close> lives in a
  store from the name of the class that holds it to the class assigned.
\<close>

datatype pyclass = PyClass (cname: string) (cbases: "pyclass list")

type_synonym class_attrs = "string \<Rightarrow> pyclass option"

fun issubclass :: "pyclass \<Rightarrow> string \<Rightarrow> bool" where
  "issubclass (PyClass n bs) target = (n = target \<or> list_ex (\<lambda>b. issubclass b target) bs)"

definition register_base_model :: "class_attrs \<Rightarrow> pyclass \<Rightarrow> error + (pyclass \<times> class_attrs)" where
  "register_base_model attrs cls =
     (case cbases cls of
        [] \<Rightarrow> Inl IndexError
      | base_cls # _ \<Rightarrow>
          if issubclass base_cls ''PretrainedModel''
          then Inr (cls, attrs(cname base_cls \<mapsto> cls))
          else Inl (AssertionError
            ''`register_base_model` should be used on subclasses of PretrainedModel.''))"

subsection \<open>Collaborators of \<open>from_pretrained\<close>\<close>

text \<open>
  The file system, the downloader, the JSON reader and the tensor runtime are outside
  the module. They are fields of an environment over a world \<open>'w\<close>; the downloader
  returns the new world, which later file tests see.
\<close>

record 'w env =
  model_home :: string
  isdir :: "'w \<Rightarrow> string \<Rightarrow> bool"
  isfile :: "'w \<Rightarrow> string \<Rightarrow> bool"
  path_exists :: "'w \<Rightarrow> string \<Rightarrow> bool"
  get_path_from_url :: "'w \<Rightarrow> string \<Rightarrow> string \<Rightarrow> error + (string \<times> 'w)"
  json_load :: "'w \<Rightarrow> string \<Rightarrow> error + (string \<times> val) list"
  paddle_load :: "'w \<Rightarrow> string \<Rightarrow> error + (string \<times> tensor) list"
  in_dynamic_mode :: "'w \<Rightarrow> bool"

text \<open>
  What \<open>from_pretrained\<close> reads of a model class: its name, its class attributes, the
  parameter names of its \<open>__init__\<close> (\<open>inspect.signature\<close>) and its constructor, which
  is code of the subclass and may raise.
\<close>

record model_class =
  cls_name :: string
  model_config_file :: string
  pretrained_init_configuration :: "(string \<times> (string \<times> val) list) list"
  resource_files_names :: "(string \<times> string) list"
  pretrained_resource_files_map :: "(string \<times> (string \<times> string) list) list"
  base_model_prefix :: string
  init_parameters :: "string list"
  cls_init :: "val list \<Rightarrow> (string \<times> val) list \<Rightarrow> error + model"

datatype log_msg =
    AlreadyCached string
  | Downloading string string
  | NotInitialized string "string list"
      \<comment> \<open>"Weights of {} not initialized from pretrained model: {}"\<close>
  | NotUsed string "string list"
      \<comment> \<open>"Weights from pretrained model not used in {}: {}"\<close>

subsection \<open>\<open>from_pretrained\<close>: finding the resource files (lines 129 to 170)\<close>

fun pretrained_urls ::
  "(string \<times> (string \<times> string) list) list \<Rightarrow> string \<Rightarrow> (string \<times> string) list
    \<Rightarrow> error + (string \<times> string) list" where
  "pretrained_urls [] name resource_files = Inr resource_files"
| "pretrained_urls ((file_id, map_list) # rest) name resource_files =
     (case map_of map_list name of
        None \<Rightarrow> Inl (KeyError name)
      | Some url \<Rightarrow> pretrained_urls rest name (dict_set resource_files file_id url))"

fun directory_files ::
  "(string \<times> string) list \<Rightarrow> string \<Rightarrow> (string \<times> string) list \<Rightarrow> (string \<times> string) list" where
  "directory_files [] dir resource_files = resource_files"
| "directory_files ((file_id, file_name) # rest) dir resource_files =
     directory_files rest dir (dict_set resource_files file_id (path_join dir file_name))"

definition find_resources ::
  "'w env \<Rightarrow> 'w \<Rightarrow> model_class \<Rightarrow> string
    \<Rightarrow> error + ((string \<times> string) list \<times> (string \<times> val) list)" where
  "find_resources env w cls name =
     (if name \<in> set (map fst (pretrained_init_configuration cls)) then
        (case pretrained_urls (pretrained_resource_files_map cls) name [] of
           Inl e \<Rightarrow> Inl e
         | Inr resource_files \<Rightarrow>
             (case map_of (pretrained_init_configuration cls) name of
                None \<Rightarrow> Inl (KeyError name)
              | Some init_configuration \<Rightarrow> Inr (resource_files, init_configuration)))
      else if isdir env w name then
        Inr (dict_set (directory_files (resource_files_names cls) name [])
               ''model_config_file'' (path_join name (model_config_file cls)), [])
      else
        Inl (ValueError (cls_name cls) (map fst (pretrained_init_configuration cls)) name))"

text \<open>
  The loop of lines 159 to 170. A resource path is a string here, so the source's test
  \<open>file_path is None\<close> is never true.
\<close>

fun resolve_files ::
  "'w env \<Rightarrow> string \<Rightarrow> (string \<times> string) list \<Rightarrow> 'w \<Rightarrow> (string \<times> string) list
    \<Rightarrow> log_msg list \<Rightarrow> error + ((string \<times> string) list \<times> 'w \<times> log_msg list)" where
  "resolve_files env default_root [] w resolved log = Inr (resolved, w, log)"
| "resolve_files env default_root ((file_id, file_path) # rest) w resolved log =
     (if isfile env w file_path then
        resolve_files env default_root rest w (dict_set resolved file_id file_path) log
      else if path_exists env w (path_join default_root (last_component file_path)) then
        resolve_files env default_root rest w
          (dict_set resolved file_id (path_join default_root (last_component file_path)))
          (log @ [AlreadyCached (path_join default_root (last_component file_path))])
      else
        (case get_path_from_url env w file_path default_root of
           Inl e \<Rightarrow> Inl e
         | Inr (p, w') \<Rightarrow>
             resolve_files env default_root rest w' (dict_set resolved file_id p)
               (log @ [Downloading file_path default_root])))"

subsection \<open>\<open>from_pretrained\<close>: splitting the configuration (lines 174 to 218)\<close>

definition py_iter :: "val \<Rightarrow> error + val list" where
  \<comment> \<open>iterating a value: \<open>list(v)\<close>, \<open>enumerate(v)\<close>, \<open>*v\<close>, \<open>for x in v\<close>\<close>
  "py_iter v =
     (case v of
        VList xs \<Rightarrow> Inr xs
      | VTuple xs \<Rightarrow> Inr xs
      | VStr s \<Rightarrow> Inr (map (\<lambda>c. VStr [c]) s)
      | VDict d \<Rightarrow> Inr (map (\<lambda>kv. VStr (fst kv)) d)
      | _ \<Rightarrow> Inl (TypeError ''object is not iterable''))"

definition is_marker :: "val \<Rightarrow> bool" where
  \<comment> \<open>\<open>isinstance(arg, dict) and "init_class" in arg\<close>\<close>
  "is_marker arg = (case arg of VDict d \<Rightarrow> map_of d ''init_class'' \<noteq> None | _ \<Rightarrow> False)"

definition take_marker :: "string \<Rightarrow> val \<Rightarrow> error + (string \<times> val) list" where
  \<comment> \<open>\<open>assert arg.pop("init_class") == cls.base_model_class.__name__\<close>; the dictionary after the pop\<close>
  "take_marker base_name arg =
     (case arg of
        VDict d \<Rightarrow>
          (case dict_pop d ''init_class'' of
             (None, _) \<Rightarrow> Inl (KeyError ''init_class'')
           | (Some c, d') \<Rightarrow>
               if c = VStr base_name then Inr d'
               else Inl (AssertionError ''pretrained base model should be {}''))
      | _ \<Rightarrow> Inl (AttributeError ''pop''))"


text \<open>
  The first marker of each search, and whether the positional search passes its
  assertion: it found no marker, or the marker it found names the class.
\<close>

definition first_positional :: "val list \<Rightarrow> val option" where
  "first_positional args = find is_marker args"

definition first_keyword :: "(string \<times> val) list \<Rightarrow> (string \<times> val) option" where
  "first_keyword kwargs = find (\<lambda>kv. is_marker (snd kv)) kwargs"


datatype arg_index = Positional nat | Keyword string

definition positional_marker ::
  "string \<Rightarrow> val list \<Rightarrow> error + ((arg_index \<times> (string \<times> val) list) option \<times> val list)" where
  \<comment> \<open>the loop of lines 198 to 206; the popped dictionary is also the element of \<open>derived_args\<close>\<close>
  "positional_marker base_name init_args =
     (case find (\<lambda>ia. is_marker (snd ia)) (enumerate 0 init_args) of
        None \<Rightarrow> Inr (None, init_args)
      | Some (i, arg) \<Rightarrow>
          (case take_marker base_name arg of
             Inl e \<Rightarrow> Inl e
           | Inr d \<Rightarrow> Inr (Some (Positional i, d), init_args[i := VDict d])))"

definition keyword_marker ::
  "string \<Rightarrow> (string \<times> val) list
    \<Rightarrow> error + ((arg_index \<times> (string \<times> val) list) option \<times> (string \<times> val) list)" where
  \<comment> \<open>the loop of lines 207 to 215; the popped dictionary is also the value in \<open>init_kwargs\<close>\<close>
  "keyword_marker base_name init_kwargs =
     (case find (\<lambda>ka. is_marker (snd ka)) init_kwargs of
        None \<Rightarrow> Inr (None, init_kwargs)
      | Some (arg_name, arg) \<Rightarrow>
          (case take_marker base_name arg of
             Inl e \<Rightarrow> Inl e
           | Inr d \<Rightarrow> Inr (Some (Keyword arg_name, d), dict_set init_kwargs arg_name (VDict d))))"

text \<open>
  The configuration split of lines 188 to 218. The second loop runs whether or not the
  first one found a marker, and assigns \<open>base_arg_index\<close> and \<open>base_arg\<close> again when it
  finds one. With no marker at all \<open>base_arg\<close> is \<open>None\<close> and \<open>base_arg.pop\<close> raises.
  \<open>base_kwargs\<close> is the marker's dictionary itself, so the pop of \<open>init_args\<close> shows in
  \<open>derived_args\<close> or \<open>derived_kwargs\<close> too.
\<close>

record split =
  base_args :: val
  base_kwargs :: "(string \<times> val) list"
  derived_args :: "val list"
  derived_kwargs :: "(string \<times> val) list"
  base_arg_index :: "arg_index option"

definition split_config ::
  "string \<Rightarrow> val \<Rightarrow> val \<Rightarrow> (string \<times> val) list \<Rightarrow> error + split" where
  "split_config base_name init_class init_args init_kwargs =
     (if init_class = VStr base_name then
        Inr \<lparr>base_args = init_args, base_kwargs = init_kwargs, derived_args = [],
             derived_kwargs = [], base_arg_index = None\<rparr>
      else
        (case py_iter init_args of
           Inl e \<Rightarrow> Inl e
         | Inr args0 \<Rightarrow>
        (case positional_marker base_name args0 of
           Inl e \<Rightarrow> Inl e
         | Inr (found_pos, args1) \<Rightarrow>
        (case keyword_marker base_name init_kwargs of
           Inl e \<Rightarrow> Inl e
         | Inr (found_kw, kwargs1) \<Rightarrow>
        (case (case found_kw of Some m \<Rightarrow> Some m | None \<Rightarrow> found_pos) of
           None \<Rightarrow> Inl (AttributeError ''pop'')
         | Some (idx, base_arg) \<Rightarrow>
             (let popped = dict_pop base_arg ''init_args'';
                  b_args = (case fst popped of None \<Rightarrow> VTuple [] | Some a \<Rightarrow> a);
                  b_kwargs = snd popped
              in Inr \<lparr>base_args = b_args, base_kwargs = b_kwargs,
                      derived_args =
                        (case idx of Positional i \<Rightarrow> args1[i := VDict b_kwargs]
                                   | Keyword k \<Rightarrow> args1),
                      derived_kwargs =
                        (case idx of Positional i \<Rightarrow> kwargs1
                                   | Keyword k \<Rightarrow> dict_set kwargs1 k (VDict b_kwargs)),
                      base_arg_index = Some idx\<rparr>))))))"

subsection \<open>\<open>from_pretrained\<close>: constructing the model (lines 219 to 241)\<close>

definition call :: "model_class \<Rightarrow> val \<Rightarrow> (string \<times> val) list \<Rightarrow> error + model" where
  \<comment> \<open>\<open>c(*args, **kwargs)\<close>\<close>
  "call c args kwargs =
     (case py_iter args of Inl e \<Rightarrow> Inl e | Inr xs \<Rightarrow> cls_init c xs kwargs)"

definition place_base_model :: "split \<Rightarrow> model \<Rightarrow> error + val list" where
  \<comment> \<open>lines 232 to 235; \<open>derived_args\<close> is a list, which a string does not index\<close>
  "place_base_model s base_model =
     (case base_arg_index s of
        None \<Rightarrow> Inr [VModel base_model]
      | Some (Positional i) \<Rightarrow>
          if i < length (derived_args s) then Inr ((derived_args s)[i := VModel base_model])
          else Inl IndexError
      | Some (Keyword k) \<Rightarrow> Inl (TypeError ''list indices must be integers or slices, not str''))"

definition construct ::
  "model_class \<Rightarrow> model_class \<Rightarrow> val list \<Rightarrow> (string \<times> val) list \<Rightarrow> split \<Rightarrow> error + model" where
  "construct cls base args kwargs s =
     (if cls_name cls = cls_name base then
        call cls (if args = [] then base_args s else VTuple args)
          (dict_update (base_kwargs s) kwargs)
      else
        (case call base (base_args s)
                (update_known (init_parameters base) (base_kwargs s) kwargs) of
           Inl e \<Rightarrow> Inl e
         | Inr base_model \<Rightarrow>
             (case place_base_model s base_model of
                Inl e \<Rightarrow> Inl e
              | Inr placed \<Rightarrow>
                  cls_init cls (if args = [] then placed else args)
                    (update_known (init_parameters cls) (derived_kwargs s) kwargs))))"

subsection \<open>The layer interface of the tensor runtime\<close>

text \<open>
  Modelled from the spec: \<open>state_dict\<close> and \<open>set_state_dict\<close> of the tensor runtime's
  layer type, which is not code of this module (spec section 6: "a module/layer base
  type supplying state_dict-style introspection and set_state_dict-style loading";
  section 7: a partial key mismatch is not fatal, "load proceeds with whatever weights
  do align"). A parameter path is the dot-joined path of sub-layer names and the
  parameter's name; \<open>set_state_dict\<close> gives each live parameter the value the state
  holds at its path, leaves it alone when the state has none, and never raises.
\<close>

fun param_paths :: "layer \<Rightarrow> (string \<times> tensor) list" where
  "param_paths (Layer ps subs) =
     ps @ concat (map (\<lambda>nl. map (\<lambda>kt. (fst nl @ ''.'' @ fst kt, snd kt)) (param_paths (snd nl)))
                    subs)"

definition state_dict :: "layer \<Rightarrow> (string \<times> tensor) list" where
  "state_dict l = dict_update [] (param_paths l)"

definition sub_state :: "string \<Rightarrow> (string \<times> tensor) list \<Rightarrow> (string \<times> tensor) list" where
  "sub_state name state =
     map (\<lambda>kv. (drop (length (name @ ''.'')) (fst kv), snd kv))
       (filter (\<lambda>kv. startswith (fst kv) (name @ ''.'')) state)"

fun set_state_dict :: "layer \<Rightarrow> (string \<times> tensor) list \<Rightarrow> layer" where
  "set_state_dict (Layer ps subs) state =
     Layer (map (\<lambda>kt. (fst kt, case map_of state (fst kt) of None \<Rightarrow> snd kt | Some t \<Rightarrow> t)) ps)
           (map (\<lambda>nl. (fst nl, set_state_dict (snd nl) (sub_state (fst nl) state))) subs)"

text \<open>
  The attributes of an instance. \<open>hasattr\<close> finds a sub-layer, a parameter or any other
  attribute of that name; only a sub-layer has a \<open>set_state_dict\<close>.
\<close>

definition has_sublayer :: "model \<Rightarrow> string \<Rightarrow> bool" where
  "has_sublayer m name = (map_of (l_subs (m_layer m)) name \<noteq> None)"

definition hasattr :: "model \<Rightarrow> string \<Rightarrow> bool" where
  "hasattr m name =
     (has_sublayer m name \<or> map_of (l_params (m_layer m)) name \<noteq> None
      \<or> name \<in> set (m_attrs m))"

definition with_layer :: "model \<Rightarrow> layer \<Rightarrow> model" where
  "with_layer m l = Model (m_class m) (init_config m) l (m_attrs m)"

definition load_into :: "model \<Rightarrow> string option \<Rightarrow> (string \<times> tensor) list \<Rightarrow> error + model" where
  \<comment> \<open>\<open>model_to_load.set_state_dict(state_to_load)\<close>, where \<open>model_to_load\<close> is the model
      itself (\<open>None\<close>) or its attribute of the given name. A sub-layer got as an attribute
      is the same object as the model's sub-layer, so the model sees the loaded weights;
      an attribute that is not a sub-layer has no \<open>set_state_dict\<close>\<close>
  "load_into m target state =
     (case target of
        None \<Rightarrow> Inr (with_layer m (set_state_dict (m_layer m) state))
      | Some name \<Rightarrow>
          if has_sublayer m name then
            Inr (with_layer m
                   (Layer (l_params (m_layer m))
                      (map (\<lambda>nl. if fst nl = name then (fst nl, set_state_dict (snd nl) state)
                                 else nl)
                         (l_subs (m_layer m)))))
          else Inl (AttributeError ''set_state_dict''))"

subsection \<open>\<open>from_pretrained\<close>: loading the weights (lines 243 to 283)\<close>

definition strip_prefix ::
  "string \<Rightarrow> (string \<times> tensor) list \<Rightarrow> (string \<times> tensor) list \<times> string list" where
  \<comment> \<open>the loop of lines 261 to 265: \<open>state_to_load\<close> and \<open>unexpected_keys\<close>\<close>
  "strip_prefix prefix state =
     fold (\<lambda>kv acc.
             if startswith (fst kv) prefix
             then (dict_set (fst acc) (drop (length (prefix @ ''.'')) (fst kv)) (snd kv), snd acc)
             else (fst acc, snd acc @ [fst kv]))
       state ([], [])"

datatype returned = Dynamic model | Static model "(string \<times> tensor) list"
  \<comment> \<open>\<open>return model\<close> and \<open>return model, state_to_load\<close>\<close>

fun returned_model :: "returned \<Rightarrow> model" where
  "returned_model (Dynamic m) = m"
| "returned_model (Static m state) = m"

record plan =
  model_to_load :: "string option"
  state_to_load :: "(string \<times> tensor) list"
  unexpected_keys :: "string list"
  missing_keys :: "string list"

definition reconcile :: "string \<Rightarrow> model \<Rightarrow> (string \<times> tensor) list \<Rightarrow> plan" where
  \<comment> \<open>lines 251 to 272\<close>
  "reconcile prefix m state =
     (let has = hasattr m prefix;
          carried = list_ex (\<lambda>s. startswith s prefix) (map fst state);
          stripped = (if \<not> has \<and> carried then strip_prefix prefix state else (state, []))
      in \<lparr>model_to_load = (if has \<and> \<not> carried then Some prefix else None),
          state_to_load = fst stripped,
          unexpected_keys = snd stripped,
          missing_keys =
            (if has \<and> \<not> carried
             then filter (\<lambda>k. \<not> startswith k prefix) (map fst (state_dict (m_layer m)))
             else [])\<rparr>)"

definition load_weights ::
  "'w env \<Rightarrow> 'w \<Rightarrow> model_class \<Rightarrow> model \<Rightarrow> (string \<times> string) list
    \<Rightarrow> error + (returned \<times> log_msg list)" where
  "load_weights env w cls m resolved_resource_files =
     (case map snd resolved_resource_files of
        [] \<Rightarrow> Inl IndexError
      | weight_path # _ \<Rightarrow>
          if \<not> endswith weight_path ''.pdparams''
          then Inl (AssertionError ''suffix of weight must be .pdparams'')
          else
            (case paddle_load env w weight_path of
               Inl e \<Rightarrow> Inl e
             | Inr state \<Rightarrow>
                 (let p = reconcile (base_model_prefix cls) m state
                  in case load_into m (model_to_load p) (state_to_load p) of
                       Inl e \<Rightarrow> Inl e
                     | Inr loaded \<Rightarrow>
                         Inr (if in_dynamic_mode env w then Dynamic loaded
                              else Static loaded (state_to_load p),
                              (if missing_keys p \<noteq> []
                               then [NotInitialized (m_class m) (missing_keys p)] else []) @
                              (if unexpected_keys p \<noteq> []
                               then [NotUsed (m_class m) (unexpected_keys p)] else [])))))"

subsection \<open>\<open>from_pretrained\<close>\<close>

text \<open>
  \<open>cls.base_model_class\<close> is an argument: the class \<open>register_base_model\<close> assigned,
  or \<open>None\<close> when the attribute is not set, which raises at line 185. Classes are
  compared by name. \<open>prepare_model\<close> is lines 129 to 241, up to the constructed model.
\<close>

definition read_config ::
  "'w env \<Rightarrow> 'w \<Rightarrow> model_class \<Rightarrow> string
    \<Rightarrow> error + ((string \<times> val) list \<times> (string \<times> string) list \<times> 'w \<times> log_msg list)" where
  \<comment> \<open>lines 129 to 180: the loaded configuration and the resolved resource files, the
      configuration file's entry popped\<close>
  "read_config env w cls name =
     (case find_resources env w cls name of
        Inl e \<Rightarrow> Inl e
      | Inr (resource_files, init_configuration) \<Rightarrow>
     (case resolve_files env (path_join (model_home env) name) resource_files w [] [] of
        Inl e \<Rightarrow> Inl e
      | Inr (resolved, w', log) \<Rightarrow>
     (case (case map_of resolved ''model_config_file'' of
              None \<Rightarrow> Inr init_configuration
            | Some config_path \<Rightarrow> json_load env w' config_path) of
        Inl e \<Rightarrow> Inl e
      | Inr loaded \<Rightarrow> Inr (loaded, dict_del resolved ''model_config_file'', w', log))))"

definition pop_init ::
  "string \<Rightarrow> (string \<times> val) list \<Rightarrow> val \<times> val \<times> (string \<times> val) list" where
  \<comment> \<open>lines 182 to 185: \<open>init_args\<close>, \<open>init_class\<close> and what is left as \<open>init_kwargs\<close>\<close>
  "pop_init base_name loaded =
     ((case map_of loaded ''init_args'' of None \<Rightarrow> VTuple [] | Some a \<Rightarrow> a),
      (case map_of (dict_del loaded ''init_args'') ''init_class'' of
         None \<Rightarrow> VStr base_name | Some c \<Rightarrow> c),
      dict_del (dict_del loaded ''init_args'') ''init_class'')"

definition prepare_model ::
  "'w env \<Rightarrow> 'w \<Rightarrow> model_class \<Rightarrow> model_class option \<Rightarrow> string \<Rightarrow> val list
    \<Rightarrow> (string \<times> val) list \<Rightarrow> error + (model \<times> (string \<times> string) list \<times> 'w \<times> log_msg list)" where
  "prepare_model env w cls base_model_class name args kwargs =
     (case read_config env w cls name of
        Inl e \<Rightarrow> Inl e
      | Inr (loaded, resolved, w', log) \<Rightarrow>
     (case base_model_class of
        None \<Rightarrow> Inl (AttributeError ''base_model_class'')
      | Some base \<Rightarrow>
     (case pop_init (cls_name base) loaded of
        (init_args, init_class, init_kwargs) \<Rightarrow>
     (case split_config (cls_name base) init_class init_args init_kwargs of
        Inl e \<Rightarrow> Inl e
      | Inr s \<Rightarrow>
     (case construct cls base args kwargs s of
        Inl e \<Rightarrow> Inl e
      | Inr m \<Rightarrow> Inr (m, resolved, w', log))))))"

definition from_pretrained ::
  "'w env \<Rightarrow> 'w \<Rightarrow> model_class \<Rightarrow> model_class option \<Rightarrow> string \<Rightarrow> val list
    \<Rightarrow> (string \<times> val) list \<Rightarrow> error + (returned \<times> log_msg list)" where
  "from_pretrained env w cls base_model_class name args kwargs =
     (case prepare_model env w cls base_model_class name args kwargs of
        Inl e \<Rightarrow> Inl e
      | Inr (m, resolved, w', log) \<Rightarrow>
          (case load_weights env w' cls m resolved of
             Inl e \<Rightarrow> Inl e
           | Inr (r, log') \<Rightarrow> Inr (r, log @ log')))"

subsection \<open>\<open>save_model_config\<close>\<close>

















subsection \<open>Example classes, checkpoints and configurations\<close>

text \<open>
  A base class \<open>TinyModel\<close> with \<open>__init__(self, hidden_size=8, num_layers=1)\<close> and
  two parameters, and a head class \<open>TinyHead\<close> with \<open>__init__(self, tiny, num_labels=2)\<close>
  that holds the base model as its attribute \<open>tiny\<close> and adds a classifier. Both are
  registered under the same parent, so \<open>base_model_class\<close> is \<open>TinyModel\<close> for both.
  A call binds its arguments as Python does, and the instance records them the way
  the init tracker does: the keyword arguments, the positional ones as the tuple
  \<open>init_args\<close>, and the class name.
\<close>

definition bind_arguments ::
  "string list \<Rightarrow> val list \<Rightarrow> (string \<times> val) list \<Rightarrow> error + (string \<times> val) list" where
  "bind_arguments params args kwargs =
     (if length params < length args
      then Inl (External ''TypeError: too many positional arguments'')
      else if list_all (\<lambda>k. k \<in> set (drop (length args) params)) (map fst kwargs)
      then Inr (zip params args @ kwargs)
      else Inl (External ''TypeError: unexpected or repeated keyword argument''))"

definition tracked :: "string \<Rightarrow> val list \<Rightarrow> (string \<times> val) list \<Rightarrow> (string \<times> val) list" where
  "tracked name args kwargs =
     kwargs @ (if args = [] then [] else [(''init_args'', VTuple args)])
       @ [(''init_class'', VStr name)]"

definition tiny_layer :: layer where
  "tiny_layer = Layer [(''w'', 0), (''b'', 0)] []"

definition tiny_attrs :: "string list" where
  "tiny_attrs = [''config'', ''init_config'', ''base_model_prefix'', ''base_model'', ''forward'']"

definition tiny_model_init :: "val list \<Rightarrow> (string \<times> val) list \<Rightarrow> error + model" where
  "tiny_model_init args kwargs =
     (case bind_arguments [''hidden_size'', ''num_layers''] args kwargs of
        Inl e \<Rightarrow> Inl e
      | Inr bound \<Rightarrow>
          Inr (Model ''TinyModel'' (tracked ''TinyModel'' args kwargs) tiny_layer tiny_attrs))"

definition tiny_head_init :: "string \<Rightarrow> val list \<Rightarrow> (string \<times> val) list \<Rightarrow> error + model" where
  "tiny_head_init name args kwargs =
     (case bind_arguments [''tiny'', ''num_labels''] args kwargs of
        Inl e \<Rightarrow> Inl e
      | Inr bound \<Rightarrow>
          (case map_of bound ''tiny'' of
             Some (VModel b) \<Rightarrow>
               Inr (Model name (tracked name args kwargs)
                      (Layer [(''classifier'', 5)] [(''tiny'', m_layer b)]) tiny_attrs)
           | _ \<Rightarrow> Inl (External ''TypeError: tiny is not a model'')))"

definition TinyModel :: model_class where
  "TinyModel =
     \<lparr>cls_name = ''TinyModel'', model_config_file = ''model_config.json'',
      pretrained_init_configuration = [(''tiny-model'', [(''hidden_size'', VInt 8)])],
      resource_files_names = [(''model_state'', ''model_state.pdparams'')],
      pretrained_resource_files_map =
        [(''model_state'', [(''tiny-model'', ''https://models/tiny-model.pdparams'')])],
      base_model_prefix = ''tiny'',
      init_parameters = [''self'', ''hidden_size'', ''num_layers''],
      cls_init = tiny_model_init\<rparr>"

definition TinyHead :: model_class where
  "TinyHead =
     TinyModel\<lparr>cls_name := ''TinyHead'',
       init_parameters := [''self'', ''tiny'', ''num_labels''],
       cls_init := tiny_head_init ''TinyHead''\<rparr>"

definition TinyVocab :: model_class where
  \<comment> \<open>a head class whose first resource file is a vocabulary\<close>
  "TinyVocab =
     TinyHead\<lparr>cls_name := ''TinyVocab'',
       resource_files_names := [(''vocab_file'', ''vocab.txt''),
                                (''model_state'', ''model_state.pdparams'')],
       cls_init := tiny_head_init ''TinyVocab''\<rparr>"

text \<open>
  A world with the registry's weight file in the cache and five saved directories:
  \<open>ckpt\<close>, saved from \<open>TinyHead(tiny_model, num_labels=2)\<close>, which also holds a
  vocabulary file; \<open>kw\<close>, saved from \<open>TinyHead(tiny=tiny_model, num_labels=2)\<close>;
  \<open>both\<close>, whose configuration nests a base-model configuration both among
  \<open>init_args\<close> and under a keyword; \<open>plain\<close>, saved from \<open>TinyModel(4, num_layers=2)\<close>;
  and \<open>slip\<close>, whose weight file has a key \<open>tiny_w\<close> beside \<open>tiny.w\<close>.
\<close>

definition saved_dirs :: "string list" where
  "saved_dirs = [''ckpt'', ''kw'', ''both'', ''plain'', ''slip'']"

definition saved_configs :: "(string \<times> (string \<times> val) list) list" where
  "saved_configs =
     [(''ckpt/model_config.json'',
         [(''num_labels'', VInt 2),
          (''init_args'', VList [VDict [(''hidden_size'', VInt 8),
                                        (''init_class'', VStr ''TinyModel'')]]),
          (''init_class'', VStr ''TinyHead'')]),
      (''kw/model_config.json'',
         [(''tiny'', VDict [(''hidden_size'', VInt 8), (''init_class'', VStr ''TinyModel'')]),
          (''num_labels'', VInt 2),
          (''init_class'', VStr ''TinyHead'')]),
      (''both/model_config.json'',
         [(''init_args'', VList [VDict [(''hidden_size'', VInt 1),
                                        (''init_class'', VStr ''TinyModel'')]]),
          (''tiny'', VDict [(''hidden_size'', VInt 2), (''init_class'', VStr ''TinyModel'')]),
          (''init_class'', VStr ''TinyHead'')]),
      (''plain/model_config.json'',
         [(''num_layers'', VInt 2),
          (''init_args'', VList [VInt 4]),
          (''init_class'', VStr ''TinyModel'')]),
      (''slip/model_config.json'',
         [(''hidden_size'', VInt 8), (''init_class'', VStr ''TinyModel'')])]"

definition saved_states :: "(string \<times> (string \<times> tensor) list) list" where
  "saved_states =
     [(''/home/tiny-model/tiny-model.pdparams'', [(''w'', 3), (''b'', 4)]),
      (''ckpt/model_state.pdparams'', [(''tiny.w'', 7), (''tiny.b'', 8), (''classifier'', 9)]),
      (''kw/model_state.pdparams'', [(''tiny.w'', 7), (''tiny.b'', 8), (''classifier'', 9)]),
      (''both/model_state.pdparams'', [(''tiny.w'', 7), (''tiny.b'', 8), (''classifier'', 9)]),
      (''plain/model_state.pdparams'', [(''w'', 5), (''b'', 6)]),
      (''slip/model_state.pdparams'', [(''tiny.w'', 7), (''tiny.b'', 8), (''tiny_w'', 1)])]"

definition saved_files :: "string list" where
  "saved_files = ''ckpt/vocab.txt'' # map fst saved_configs @ map fst saved_states"

definition tiny_env :: "bool \<Rightarrow> unit env" where
  "tiny_env dynamic =
     \<lparr>model_home = ''/home'',
      isdir = (\<lambda>w p. p \<in> set saved_dirs),
      isfile = (\<lambda>w p. p \<in> set saved_files),
      path_exists = (\<lambda>w p. p \<in> set (saved_dirs @ saved_files)),
      get_path_from_url = (\<lambda>w url root. Inl (External ''no network'')),
      json_load = (\<lambda>w p.
         case map_of saved_configs p of
           Some c \<Rightarrow> Inr c
         | None \<Rightarrow> Inl (External ''FileNotFoundError'')),
      paddle_load = (\<lambda>w p.
         case map_of saved_states p of
           Some s \<Rightarrow> Inr s
         | None \<Rightarrow> Inl (External ''FileNotFoundError'')),
      in_dynamic_mode = (\<lambda>w. dynamic)\<rparr>"




section \<open>Properties\<close>

subsection \<open>Dictionaries\<close>

lemma map_of_dict_set: "map_of (dict_set d k v) = (map_of d)(k \<mapsto> v)"
  by (induction d) (auto simp: fun_eq_iff)

lemma keys_dict_set:
  "map fst (dict_set d k v) = (if k \<in> set (map fst d) then map fst d else map fst d @ [k])"
  by (induction d) force+

lemma map_of_dict_update:
  "distinct (map fst e) \<Longrightarrow> map_of (dict_update d e) = map_of d ++ map_of e"
proof (induction e arbitrary: d)
  case Nil
  then show ?case by (simp add: dict_update_def)
next
  case (Cons kv e)
  obtain k v where kv: "kv = (k, v)" by (cases kv)
  have notin: "k \<notin> dom (map_of e)"
    using Cons.prems by (simp add: kv dom_map_of_conv_image_fst)
  have "map_of (dict_update d (kv # e)) = map_of (dict_update (dict_set d k v) e)"
    by (simp add: kv dict_update_def)
  also have "\<dots> = map_of (dict_set d k v) ++ map_of e"
    using Cons by simp
  also have "\<dots> = (map_of d)(k \<mapsto> v) ++ map_of e"
    by (simp only: map_of_dict_set)
  also have "\<dots> = (map_of d ++ map_of e)(k \<mapsto> v)"
    using notin by (rule map_add_upd_left)
  also have "\<dots> = map_of d ++ map_of (kv # e)"
    by (simp add: kv)
  finally show ?case .
qed

lemma map_of_dict_update_rev: "map_of (dict_update d e) = map_of d ++ map_of (rev e)"
proof (induction e arbitrary: d)
  case Nil
  then show ?case by (simp add: dict_update_def)
next
  case (Cons kv e)
  have "map_of (dict_update d (kv # e)) = map_of (dict_update (dict_set d (fst kv) (snd kv)) e)"
    by (simp add: dict_update_def)
  also have "\<dots> = (map_of d)(fst kv \<mapsto> snd kv) ++ map_of (rev e)"
    by (simp only: Cons.IH map_of_dict_set)
  also have "\<dots> = map_of d ++ map_of (rev (kv # e))"
    by (cases kv) simp
  finally show ?case .
qed

lemma keys_dict_update:
  "set (map fst (dict_update d e)) = set (map fst d) \<union> set (map fst e)"
proof (induction e arbitrary: d)
  case Nil
  show ?case by (simp add: dict_update_def)
next
  case (Cons kv e)
  have "dict_update d (kv # e) = dict_update (dict_set d (fst kv) (snd kv)) e"
    by (simp add: dict_update_def)
  then have "set (map fst (dict_update d (kv # e))) =
               set (map fst (dict_set d (fst kv) (snd kv))) \<union> set (map fst e)"
    by (simp only: Cons.IH)
  also have "\<dots> = set (map fst d) \<union> set (map fst (kv # e))"
    unfolding keys_dict_set by auto
  finally show ?case .
qed

lemma map_of_dict_del_other: "k' \<noteq> k \<Longrightarrow> map_of (dict_del d k) k' = map_of d k'"
  by (induction d) (auto simp: dict_del_def)

subsection \<open>Registration of the base model class\<close>

text \<open>
  Claim C9. For a class \<open>D\<close> whose first declared parent is \<open>B\<close>, \<open>register_base_model\<close>
  fails with an assertion error when \<open>B\<close> is not \<open>PretrainedModel\<close> or one of its
  (possibly indirect) subclasses; otherwise it sets \<open>B.base_model_class\<close> to \<open>D\<close> and
  returns \<open>D\<close> itself. Applied afterwards to a class \<open>E\<close> with the same first parent,
  it sets \<open>B.base_model_class\<close> to \<open>E\<close>: the last registration wins.
\<close>

theorem register_base_model_last_wins:
  assumes "cbases D = B # ds" and "cbases E = B # es"
  shows "(\<not> issubclass B ''PretrainedModel'' \<longrightarrow>
            register_base_model attrs D = Inl (AssertionError
              ''`register_base_model` should be used on subclasses of PretrainedModel.''))
       \<and> (issubclass B ''PretrainedModel'' \<longrightarrow>
            register_base_model attrs D = Inr (D, attrs(cname B \<mapsto> D))
          \<and> register_base_model (attrs(cname B \<mapsto> D)) E = Inr (E, attrs(cname B \<mapsto> E))
          \<and> (attrs(cname B \<mapsto> D)) (cname B) = Some D
          \<and> (attrs(cname B \<mapsto> E)) (cname B) = Some E)"
  using assms by (simp add: register_base_model_def)

theorem register_base_model_last_wins_witness:
  "register_base_model Map.empty
     (PyClass ''TinyModel'' [PyClass ''TinyPretrainedModel'' [PyClass ''PretrainedModel'' []]])
   = Inr (PyClass ''TinyModel'' [PyClass ''TinyPretrainedModel'' [PyClass ''PretrainedModel'' []]],
          [''TinyPretrainedModel'' \<mapsto>
             PyClass ''TinyModel'' [PyClass ''TinyPretrainedModel'' [PyClass ''PretrainedModel'' []]]])
   \<and> register_base_model
        [''TinyPretrainedModel'' \<mapsto>
           PyClass ''TinyModel'' [PyClass ''TinyPretrainedModel'' [PyClass ''PretrainedModel'' []]]]
        (PyClass ''TinyHead'' [PyClass ''TinyPretrainedModel'' [PyClass ''PretrainedModel'' []]])
   = Inr (PyClass ''TinyHead'' [PyClass ''TinyPretrainedModel'' [PyClass ''PretrainedModel'' []]],
          [''TinyPretrainedModel'' \<mapsto>
             PyClass ''TinyHead'' [PyClass ''TinyPretrainedModel'' [PyClass ''PretrainedModel'' []]]])
   \<and> register_base_model Map.empty (PyClass ''Other'' [PyClass ''object'' []])
   = Inl (AssertionError ''`register_base_model` should be used on subclasses of PretrainedModel.'')"
  using register_base_model_last_wins
    [of "PyClass ''TinyModel'' [PyClass ''TinyPretrainedModel'' [PyClass ''PretrainedModel'' []]]"
        "PyClass ''TinyPretrainedModel'' [PyClass ''PretrainedModel'' []]" "[]"
        "PyClass ''TinyHead'' [PyClass ''TinyPretrainedModel'' [PyClass ''PretrainedModel'' []]]"
        "[]" Map.empty]
    register_base_model_last_wins
    [of "PyClass ''Other'' [PyClass ''object'' []]" "PyClass ''object'' []" "[]"
        "PyClass ''Other'' [PyClass ''object'' []]" "[]" Map.empty]
  by simp

subsection \<open>Unknown identifiers\<close>

text \<open>
  Claim C7. When the identifier is neither a name of the class's pretrained registry nor
  an existing directory, \<open>from_pretrained\<close> raises a \<open>ValueError\<close> whose message is
  built from the class name, the registry's names and the identifier. No model is
  constructed: the outcome is the same whatever the class's constructor is.
\<close>

theorem from_pretrained_unknown_identifier:
  assumes "name \<notin> set (map fst (pretrained_init_configuration cls))"
      and "\<not> isdir env w name"
  shows "from_pretrained env w (cls\<lparr>cls_init := c\<rparr>) base_model_class name args kwargs =
           Inl (ValueError (cls_name cls) (map fst (pretrained_init_configuration cls)) name)"
  using assms by (simp add: from_pretrained_def prepare_model_def read_config_def find_resources_def)

theorem from_pretrained_unknown_identifier_witness:
  "''nowhere'' \<notin> set (map fst (pretrained_init_configuration TinyHead))
   \<and> \<not> isdir (tiny_env True) () ''nowhere''
   \<and> from_pretrained (tiny_env True) () (TinyHead\<lparr>cls_init := (\<lambda>args kwargs. Inl (External ''never called''))\<rparr>)
        (Some TinyModel) ''nowhere'' [] []
     = Inl (ValueError ''TinyHead'' [''tiny-model''] ''nowhere'')"
  using from_pretrained_unknown_identifier
    [of "''nowhere''" TinyHead "tiny_env True" "()" "(\<lambda>args kwargs. Inl (External ''never called''))" "Some TinyModel" "[]" "[]"]
  by (simp add: TinyHead_def TinyModel_def tiny_env_def saved_dirs_def)


subsection \<open>Loading the weights: shared facts\<close>

lemma strip_prefix_fold:
  "fold (\<lambda>kv acc.
           if startswith (fst kv) p
           then (dict_set (fst acc) (drop (length (p @ ''.'')) (fst kv)) (snd kv), snd acc)
           else (fst acc, snd acc @ [fst kv]))
     state (a, u)
   = (dict_update a (map (\<lambda>kv. (drop (length (p @ ''.'')) (fst kv), snd kv))
                       (filter (\<lambda>kv. startswith (fst kv) p) state)),
      u @ filter (\<lambda>k. \<not> startswith k p) (map fst state))"
  by (induction state arbitrary: a u) (simp_all add: dict_update_def)

lemma strip_prefix_eq:
  "strip_prefix p state
   = (dict_update [] (map (\<lambda>kv. (drop (length (p @ ''.'')) (fst kv), snd kv))
                        (filter (\<lambda>kv. startswith (fst kv) p) state)),
      filter (\<lambda>k. \<not> startswith k p) (map fst state))"
  unfolding strip_prefix_def by (simp only: strip_prefix_fold append_Nil)

lemma from_pretrained_prepared:
  assumes "prepare_model env w cls bmc name args kwargs = Inr (m, resolved, w', log)"
  shows "from_pretrained env w cls bmc name args kwargs =
           (case load_weights env w' cls m resolved of
              Inl e \<Rightarrow> Inl e
            | Inr (r, log') \<Rightarrow> Inr (r, log @ log'))"
  using assms by (simp add: from_pretrained_def)

lemma load_weights_read:
  assumes "map snd resolved = weight_path # others"
      and "endswith weight_path ''.pdparams''"
      and "paddle_load env w weight_path = Inr state"
  shows "load_weights env w cls m resolved =
           (case load_into m (model_to_load (reconcile (base_model_prefix cls) m state))
                   (state_to_load (reconcile (base_model_prefix cls) m state)) of
              Inl e \<Rightarrow> Inl e
            | Inr loaded \<Rightarrow>
                Inr (if in_dynamic_mode env w then Dynamic loaded
                     else Static loaded (state_to_load (reconcile (base_model_prefix cls) m state)),
                     (if missing_keys (reconcile (base_model_prefix cls) m state) \<noteq> []
                      then [NotInitialized (m_class m)
                              (missing_keys (reconcile (base_model_prefix cls) m state))]
                      else []) @
                     (if unexpected_keys (reconcile (base_model_prefix cls) m state) \<noteq> []
                      then [NotUsed (m_class m)
                              (unexpected_keys (reconcile (base_model_prefix cls) m state))]
                      else [])))"
  using assms by (simp add: load_weights_def Let_def)

text \<open>The example classes, evaluated up to the constructed model.\<close>

lemmas eval_defs =
  prepare_model_def read_config_def pop_init_def find_resources_def path_join_def
  startswith_def endswith_def last_component_def split_config_def construct_def call_def
  py_iter_def place_base_model_def dict_del_def update_known_def tracked_def dict_update_def
  positional_marker_def keyword_marker_def take_marker_def is_marker_def dict_pop_def
  enumerate_eq_zip Let_def bind_arguments_def tiny_model_init_def tiny_head_init_def

lemmas world_defs =
  tiny_env_def saved_dirs_def saved_files_def saved_configs_def saved_states_def

lemma tiny_head_prepared:
  "prepare_model (tiny_env d) () TinyHead (Some TinyModel) ''tiny-model'' [] [] =
     Inr (Model ''TinyHead''
            [(''init_args'', VTuple [VModel (Model ''TinyModel''
                 [(''hidden_size'', VInt 8), (''init_class'', VStr ''TinyModel'')] tiny_layer
                 tiny_attrs)]),
             (''init_class'', VStr ''TinyHead'')]
            (Layer [(''classifier'', 5)] [(''tiny'', tiny_layer)]) tiny_attrs,
          [(''model_state'', ''/home/tiny-model/tiny-model.pdparams'')], (),
          [AlreadyCached ''/home/tiny-model/tiny-model.pdparams''])"
  by (simp add: eval_defs TinyHead_def TinyModel_def world_defs)

lemma tiny_vocab_prepared:
  "prepare_model (tiny_env d) () TinyVocab (Some TinyModel) ''ckpt'' [] [] =
     Inr (Model ''TinyVocab''
            [(''num_labels'', VInt 2),
             (''init_args'', VTuple [VModel (Model ''TinyModel''
                 [(''hidden_size'', VInt 8), (''init_class'', VStr ''TinyModel'')] tiny_layer
                 tiny_attrs)]),
             (''init_class'', VStr ''TinyVocab'')]
            (Layer [(''classifier'', 5)] [(''tiny'', tiny_layer)]) tiny_attrs,
          [(''vocab_file'', ''ckpt/vocab.txt''), (''model_state'', ''ckpt/model_state.pdparams'')],
          (), [])"
  by (simp add: eval_defs TinyVocab_def TinyHead_def TinyModel_def world_defs)

lemma tiny_model_prepared:
  "prepare_model (tiny_env d) () TinyModel (Some TinyModel) ''ckpt'' [] [] =
     Inr (Model ''TinyModel''
            [(''hidden_size'', VInt 8), (''init_class'', VStr ''TinyModel'')] tiny_layer
            tiny_attrs,
          [(''model_state'', ''ckpt/model_state.pdparams'')], (), [])"
  by (simp add: eval_defs TinyModel_def world_defs)

subsection \<open>The weight file\<close>

text \<open>
  Claim C6. Once the model is constructed, \<open>from_pretrained\<close> takes the first value of
  the resolved-resource mapping (in insertion order, the configuration file's entry
  popped) as the weight path. It fails with the assertion error of line 245 whenever
  that path does not end with \<open>.pdparams\<close>; otherwise the state it reconciles and
  loads is the one \<open>paddle.load\<close> returns for that path, and an error of \<open>paddle.load\<close>
  is the call's error.
\<close>

theorem weights_from_first_resource:
  assumes prep: "prepare_model env w cls bmc name args kwargs = Inr (m, resolved, w', log)"
      and res: "map snd resolved = weight_path # others"
  shows "(\<not> endswith weight_path ''.pdparams'' \<longrightarrow>
            from_pretrained env w cls bmc name args kwargs =
              Inl (AssertionError ''suffix of weight must be .pdparams''))
       \<and> (endswith weight_path ''.pdparams'' \<longrightarrow>
            (\<forall>e. paddle_load env w' weight_path = Inl e \<longrightarrow>
                   from_pretrained env w cls bmc name args kwargs = Inl e)
          \<and> (\<forall>state. paddle_load env w' weight_path = Inr state \<longrightarrow>
                (\<forall>e. load_into m (model_to_load (reconcile (base_model_prefix cls) m state))
                        (state_to_load (reconcile (base_model_prefix cls) m state)) = Inl e \<longrightarrow>
                      from_pretrained env w cls bmc name args kwargs = Inl e)
              \<and> (\<forall>loaded. load_into m (model_to_load (reconcile (base_model_prefix cls) m state))
                        (state_to_load (reconcile (base_model_prefix cls) m state)) = Inr loaded \<longrightarrow>
                      (\<exists>r lg. from_pretrained env w cls bmc name args kwargs = Inr (r, lg)
                         \<and> returned_model r = loaded))))"
proof (intro conjI impI allI)
  assume "\<not> endswith weight_path ''.pdparams''"
  then show "from_pretrained env w cls bmc name args kwargs =
               Inl (AssertionError ''suffix of weight must be .pdparams'')"
    using res by (simp add: from_pretrained_prepared [OF prep] load_weights_def)
next
  fix e
  assume "endswith weight_path ''.pdparams''" and "paddle_load env w' weight_path = Inl e"
  then show "from_pretrained env w cls bmc name args kwargs = Inl e"
    using res by (simp add: from_pretrained_prepared [OF prep] load_weights_def)
next
  fix state e
  assume suf: "endswith weight_path ''.pdparams''"
     and load: "paddle_load env w' weight_path = Inr state"
     and "load_into m (model_to_load (reconcile (base_model_prefix cls) m state))
            (state_to_load (reconcile (base_model_prefix cls) m state)) = Inl e"
  then show "from_pretrained env w cls bmc name args kwargs = Inl e"
    by (simp add: from_pretrained_prepared [OF prep] load_weights_read [OF res suf load])
next
  fix state loaded
  assume suf: "endswith weight_path ''.pdparams''"
     and load: "paddle_load env w' weight_path = Inr state"
     and "load_into m (model_to_load (reconcile (base_model_prefix cls) m state))
            (state_to_load (reconcile (base_model_prefix cls) m state)) = Inr loaded"
  then show "\<exists>r lg. from_pretrained env w cls bmc name args kwargs = Inr (r, lg)
          \<and> returned_model r = loaded"
    by (simp add: from_pretrained_prepared [OF prep] load_weights_read [OF res suf load])
qed

theorem weights_from_first_resource_witness:
  "prepare_model (tiny_env True) () TinyVocab (Some TinyModel) ''ckpt'' [] [] =
     Inr (Model ''TinyVocab''
            [(''num_labels'', VInt 2),
             (''init_args'', VTuple [VModel (Model ''TinyModel''
                 [(''hidden_size'', VInt 8), (''init_class'', VStr ''TinyModel'')] tiny_layer
                 tiny_attrs)]),
             (''init_class'', VStr ''TinyVocab'')]
            (Layer [(''classifier'', 5)] [(''tiny'', tiny_layer)]) tiny_attrs,
          [(''vocab_file'', ''ckpt/vocab.txt''), (''model_state'', ''ckpt/model_state.pdparams'')],
          (), [])
   \<and> \<not> endswith ''ckpt/vocab.txt'' ''.pdparams''
   \<and> from_pretrained (tiny_env True) () TinyVocab (Some TinyModel) ''ckpt'' [] [] =
       Inl (AssertionError ''suffix of weight must be .pdparams'')"
  using weights_from_first_resource
    [OF tiny_vocab_prepared [of True], of "''ckpt/vocab.txt''" "[''ckpt/model_state.pdparams'']"]
    tiny_vocab_prepared [of True]
  by (simp add: endswith_def)

subsection \<open>The shape of the result\<close>

text \<open>
  Claim C10. When the weights have been read, \<open>from_pretrained\<close> returns the loaded
  model alone in dynamic mode, and otherwise the pair of the loaded model and
  \<open>state_to_load\<close>, the state mapping that was loaded into it. (When the attribute to
  load into has no \<open>set_state_dict\<close>, the call raises instead.)
\<close>

theorem return_shape_by_mode:
  assumes prep: "prepare_model env w cls bmc name args kwargs = Inr (m, resolved, w', log)"
      and res: "map snd resolved = weight_path # others"
      and suf: "endswith weight_path ''.pdparams''"
      and load: "paddle_load env w' weight_path = Inr state"
  shows "(\<forall>e. load_into m (model_to_load (reconcile (base_model_prefix cls) m state))
               (state_to_load (reconcile (base_model_prefix cls) m state)) = Inl e \<longrightarrow>
             from_pretrained env w cls bmc name args kwargs = Inl e)
       \<and> (\<forall>loaded. load_into m (model_to_load (reconcile (base_model_prefix cls) m state))
               (state_to_load (reconcile (base_model_prefix cls) m state)) = Inr loaded \<longrightarrow>
           (in_dynamic_mode env w' \<longrightarrow>
              (\<exists>lg. from_pretrained env w cls bmc name args kwargs = Inr (Dynamic loaded, lg)))
         \<and> (\<not> in_dynamic_mode env w' \<longrightarrow>
              (\<exists>lg. from_pretrained env w cls bmc name args kwargs =
                 Inr (Static loaded (state_to_load (reconcile (base_model_prefix cls) m state)),
                      lg))))"
  by (simp add: from_pretrained_prepared [OF prep] load_weights_read [OF res suf load])

theorem return_shape_by_mode_witness:
  "endswith ''ckpt/model_state.pdparams'' ''.pdparams''
   \<and> paddle_load (tiny_env False) () ''ckpt/model_state.pdparams'' =
       Inr [(''tiny.w'', 7), (''tiny.b'', 8), (''classifier'', 9)]
   \<and> \<not> in_dynamic_mode (tiny_env False) ()
   \<and> (\<exists>lg. from_pretrained (tiny_env False) () TinyModel (Some TinyModel) ''ckpt'' [] [] =
         Inr (Static (Model ''TinyModel''
                        [(''hidden_size'', VInt 8), (''init_class'', VStr ''TinyModel'')]
                        (Layer [(''w'', 7), (''b'', 8)] []) tiny_attrs)
                     [(''w'', 7), (''b'', 8)], lg))"
proof -
  let ?m = "Model ''TinyModel''
              [(''hidden_size'', VInt 8), (''init_class'', VStr ''TinyModel'')] tiny_layer
              tiny_attrs"
  let ?state = "[(''tiny.w'', 7::int), (''tiny.b'', 8), (''classifier'', 9)]"
  have suf: "endswith ''ckpt/model_state.pdparams'' ''.pdparams''"
    by (simp add: endswith_def)
  have load: "paddle_load (tiny_env False) () ''ckpt/model_state.pdparams'' = Inr ?state"
    by (simp add: world_defs)
  have mode: "\<not> in_dynamic_mode (tiny_env False) ()"
    by (simp add: tiny_env_def)
  have res: "map snd [(''model_state'', ''ckpt/model_state.pdparams'')] =
               ''ckpt/model_state.pdparams'' # []"
    by simp
  have rec: "reconcile (base_model_prefix TinyModel) ?m ?state
             = \<lparr>model_to_load = None, state_to_load = [(''w'', 7), (''b'', 8)],
                unexpected_keys = [''classifier''], missing_keys = []\<rparr>"
    by (simp add: reconcile_def hasattr_def has_sublayer_def tiny_layer_def tiny_attrs_def
          TinyModel_def strip_prefix_def startswith_def Let_def)
  have into: "load_into ?m (model_to_load (reconcile (base_model_prefix TinyModel) ?m ?state))
                (state_to_load (reconcile (base_model_prefix TinyModel) ?m ?state))
              = Inr (Model ''TinyModel''
                       [(''hidden_size'', VInt 8), (''init_class'', VStr ''TinyModel'')]
                       (Layer [(''w'', 7), (''b'', 8)] []) tiny_attrs)"
    unfolding rec by (simp add: load_into_def with_layer_def tiny_layer_def)
  show ?thesis
    using return_shape_by_mode
      [OF tiny_model_prepared [of False] res suf load, THEN conjunct2, rule_format, OF into]
      suf load mode
    by (simp add: rec)
qed

subsection \<open>Reconciling the checkpoint with the model\<close>

lemma map_of_filter_key: "map_of xs k = map_of (filter (\<lambda>kv. fst kv = k) xs) k"
  by (induction xs) auto

lemma map_of_rev_filter_cong:
  assumes "filter (\<lambda>kv. fst kv = k) xs = filter (\<lambda>kv. fst kv = k) ys"
  shows "map_of (rev xs) k = map_of (rev ys) k"
proof -
  have "map_of (rev xs) k = map_of (rev (filter (\<lambda>kv. fst kv = k) xs)) k"
    by (subst map_of_filter_key) (simp add: rev_filter)
  also have "\<dots> = map_of (rev (filter (\<lambda>kv. fst kv = k) ys)) k"
    by (simp only: assms)
  also have "\<dots> = map_of (rev ys) k"
    by (subst (2) map_of_filter_key) (simp add: rev_filter)
  finally show ?thesis .
qed

lemma map_of_state_dict: "map_of (state_dict l) = map_of (rev (param_paths l))"
  by (simp add: state_dict_def map_of_dict_update_rev)

lemma sub_paths_filter:
  assumes "\<not> startswith k (n @ ''.'')"
  shows "filter (\<lambda>kv. fst kv = k) (map (\<lambda>kt. (n @ ''.'' @ fst kt, snd kt)) ps) = []"
  using assms by (auto simp: filter_empty_conv startswith_def)

lemma head_paths_kept:
  assumes "\<not> startswith k (p @ ''.'')"
  shows "filter (\<lambda>kv. fst kv = k)
           (concat (map (\<lambda>nl. map (\<lambda>kt. (fst nl @ ''.'' @ fst kt, snd kt)) (param_paths (snd nl)))
              (map (\<lambda>nl. if fst nl = p then (fst nl, set_state_dict (snd nl) state) else nl) subs)))
       = filter (\<lambda>kv. fst kv = k)
           (concat (map (\<lambda>nl. map (\<lambda>kt. (fst nl @ ''.'' @ fst kt, snd kt)) (param_paths (snd nl)))
              subs))"
proof (induction subs)
  case Nil
  show ?case by simp
next
  case (Cons a subs)
  show ?case
  proof (cases "fst a = p")
    case True
    then show ?thesis
      using Cons.IH sub_paths_filter [OF assms, of "param_paths (snd a)"]
        sub_paths_filter [OF assms, of "param_paths (set_state_dict (snd a) state)"]
      by simp
  next
    case False
    then show ?thesis using Cons.IH by simp
  qed
qed

lemma head_parameters_kept:
  assumes "load_into m (Some p) state = Inr m'" and "\<not> startswith k (p @ ''.'')"
  shows "map_of (state_dict (m_layer m')) k = map_of (state_dict (m_layer m)) k"
proof -
  obtain ps subs where l: "m_layer m = Layer ps subs" by (cases "m_layer m")
  from assms(1) have m': "m' = with_layer m
                   (Layer (l_params (m_layer m))
                      (map (\<lambda>nl. if fst nl = p then (fst nl, set_state_dict (snd nl) state)
                                 else nl)
                         (l_subs (m_layer m))))"
    by (auto simp: load_into_def split: if_splits)
  have "filter (\<lambda>kv. fst kv = k) (param_paths (m_layer m'))
      = filter (\<lambda>kv. fst kv = k) (param_paths (m_layer m))"
    using head_paths_kept [OF assms(2), of state subs]
    by (simp add: m' with_layer_def l)
  then show ?thesis
    unfolding map_of_state_dict by (rule map_of_rev_filter_cong)
qed

lemma has_sublayer_hasattr: "has_sublayer m p \<Longrightarrow> hasattr m p"
  by (simp add: hasattr_def)

lemma reconcile_head:
  assumes "hasattr m p" and "\<not> list_ex (\<lambda>k. startswith k p) (map fst state)"
  shows "reconcile p m state =
           \<lparr>model_to_load = Some p, state_to_load = state, unexpected_keys = [],
            missing_keys = filter (\<lambda>k. \<not> startswith k p) (map fst (state_dict (m_layer m)))\<rparr>"
  using assms by (simp add: reconcile_def Let_def)

lemma reconcile_base:
  assumes "\<not> hasattr m p"
      and "list_ex (\<lambda>k. startswith k p) (map fst state) \<or> list_all (\<lambda>k. startswith k p) (map fst state)"
  shows "reconcile p m state =
           \<lparr>model_to_load = None,
            state_to_load = dict_update [] (map (\<lambda>kv. (drop (length (p @ ''.'')) (fst kv), snd kv))
                                            (filter (\<lambda>kv. startswith (fst kv) p) state)),
            unexpected_keys = filter (\<lambda>k. \<not> startswith k p) (map fst state),
            missing_keys = []\<rparr>"
proof (cases "list_ex (\<lambda>k. startswith k p) (map fst state)")
  case True
  then show ?thesis
    using assms(1) by (simp add: reconcile_def Let_def strip_prefix_eq)
next
  case False
  with assms(2) have "state = []"
    by (cases state) auto
  then show ?thesis
    using assms(1) by (simp add: reconcile_def Let_def dict_update_def)
qed

text \<open>
  Claim C1. When the constructed model holds a base model as its attribute
  \<open>base_model_prefix\<close> and no key of the loaded state starts with the prefix, the state is
  loaded, as it is, into the nested base model only: the model's own parameters and its
  other sub-layers are the constructor's, and so is the value at every parameter path
  that is not under the prefix. The paths of the full model that do not start with the
  prefix are reported as not initialized (when there are any).
\<close>

theorem base_checkpoint_into_head:
  assumes prep: "prepare_model env w cls bmc name args kwargs = Inr (m, resolved, w', log)"
      and res: "map snd resolved = weight_path # others"
      and suf: "endswith weight_path ''.pdparams''"
      and load: "paddle_load env w' weight_path = Inr state"
      and has: "has_sublayer m (base_model_prefix cls)"
      and none: "\<not> list_ex (\<lambda>k. startswith k (base_model_prefix cls)) (map fst state)"
  shows "\<exists>r. from_pretrained env w cls bmc name args kwargs =
               Inr (r, log @
                 (if filter (\<lambda>k. \<not> startswith k (base_model_prefix cls))
                       (map fst (state_dict (m_layer m))) = [] then []
                  else [NotInitialized (m_class m)
                          (filter (\<lambda>k. \<not> startswith k (base_model_prefix cls))
                             (map fst (state_dict (m_layer m))))]))
           \<and> load_into m (Some (base_model_prefix cls)) state = Inr (returned_model r)
           \<and> l_params (m_layer (returned_model r)) = l_params (m_layer m)
           \<and> l_subs (m_layer (returned_model r)) =
               map (\<lambda>nl. if fst nl = base_model_prefix cls
                          then (fst nl, set_state_dict (snd nl) state) else nl)
                 (l_subs (m_layer m))
           \<and> (\<forall>k. \<not> startswith k (base_model_prefix cls @ ''.'') \<longrightarrow>
                  map_of (state_dict (m_layer (returned_model r))) k =
                  map_of (state_dict (m_layer m)) k)"
proof -
  let ?m' = "with_layer m
               (Layer (l_params (m_layer m))
                  (map (\<lambda>nl. if fst nl = base_model_prefix cls
                             then (fst nl, set_state_dict (snd nl) state) else nl)
                     (l_subs (m_layer m))))"
  let ?r = "if in_dynamic_mode env w' then Dynamic ?m' else Static ?m' state"
  have into: "load_into m (Some (base_model_prefix cls)) state = Inr ?m'"
    using has by (simp add: load_into_def)
  have m: "returned_model ?r = ?m'"
    by simp
  have "from_pretrained env w cls bmc name args kwargs =
          Inr (?r, log @
            (if filter (\<lambda>k. \<not> startswith k (base_model_prefix cls))
                  (map fst (state_dict (m_layer m))) = [] then []
             else [NotInitialized (m_class m)
                     (filter (\<lambda>k. \<not> startswith k (base_model_prefix cls))
                        (map fst (state_dict (m_layer m))))]))"
    by (simp add: from_pretrained_prepared [OF prep] load_weights_read [OF res suf load]
          reconcile_head [OF has_sublayer_hasattr [OF has] none] into)
  moreover have "load_into m (Some (base_model_prefix cls)) state = Inr (returned_model ?r)"
    unfolding m by (rule into)
  moreover have "l_params (m_layer (returned_model ?r)) = l_params (m_layer m)"
    unfolding m by (simp add: with_layer_def)
  moreover have "l_subs (m_layer (returned_model ?r)) =
               map (\<lambda>nl. if fst nl = base_model_prefix cls
                          then (fst nl, set_state_dict (snd nl) state) else nl)
                 (l_subs (m_layer m))"
    unfolding m by (simp add: with_layer_def)
  moreover have "\<forall>k. \<not> startswith k (base_model_prefix cls @ ''.'') \<longrightarrow>
                  map_of (state_dict (m_layer (returned_model ?r))) k =
                  map_of (state_dict (m_layer m)) k"
    unfolding m by (intro allI impI) (rule head_parameters_kept [OF into])
  ultimately show ?thesis by blast
qed

theorem base_checkpoint_into_head_witness:
  "has_sublayer (Model ''TinyHead''
            [(''init_args'', VTuple [VModel (Model ''TinyModel''
                 [(''hidden_size'', VInt 8), (''init_class'', VStr ''TinyModel'')] tiny_layer
                 tiny_attrs)]),
             (''init_class'', VStr ''TinyHead'')]
            (Layer [(''classifier'', 5)] [(''tiny'', tiny_layer)]) tiny_attrs)
      (base_model_prefix TinyHead)
   \<and> \<not> list_ex (\<lambda>k. startswith k (base_model_prefix TinyHead)) (map fst [(''w'', 3::int), (''b'', 4)])
   \<and> (\<exists>r. from_pretrained (tiny_env True) () TinyHead (Some TinyModel) ''tiny-model'' [] [] =
             Inr (r, [AlreadyCached ''/home/tiny-model/tiny-model.pdparams'',
                      NotInitialized ''TinyHead'' [''classifier'']])
          \<and> m_layer (returned_model r) =
              Layer [(''classifier'', 5)] [(''tiny'', Layer [(''w'', 3), (''b'', 4)] [])]
          \<and> map_of (state_dict (m_layer (returned_model r))) ''classifier'' = Some 5)"
proof -
  let ?m = "Model ''TinyHead''
            [(''init_args'', VTuple [VModel (Model ''TinyModel''
                 [(''hidden_size'', VInt 8), (''init_class'', VStr ''TinyModel'')] tiny_layer
                 tiny_attrs)]),
             (''init_class'', VStr ''TinyHead'')]
            (Layer [(''classifier'', 5)] [(''tiny'', tiny_layer)]) tiny_attrs"
  have pre: "base_model_prefix TinyHead = ''tiny''"
    by (simp add: TinyHead_def TinyModel_def)
  have has: "has_sublayer ?m (base_model_prefix TinyHead)"
    by (simp add: pre has_sublayer_def)
  have none: "\<not> list_ex (\<lambda>k. startswith k (base_model_prefix TinyHead))
                  (map fst [(''w'', 3::int), (''b'', 4)])"
    by (simp add: pre startswith_def)
  have res: "map snd [(''model_state'', ''/home/tiny-model/tiny-model.pdparams'')] =
               ''/home/tiny-model/tiny-model.pdparams'' # []"
    by simp
  have suf: "endswith ''/home/tiny-model/tiny-model.pdparams'' ''.pdparams''"
    by (simp add: endswith_def)
  have load: "paddle_load (tiny_env True) () ''/home/tiny-model/tiny-model.pdparams'' =
                Inr [(''w'', 3), (''b'', 4)]"
    by (simp add: world_defs)
  have sd: "state_dict (Layer [(''classifier'', 5)] [(''tiny'', tiny_layer)]) =
              [(''classifier'', 5), (''tiny.w'', 0), (''tiny.b'', 0)]"
    by (simp add: state_dict_def dict_update_def tiny_layer_def)
  from base_checkpoint_into_head [OF tiny_head_prepared [of True] res suf load has none]
  obtain r where
    r: "from_pretrained (tiny_env True) () TinyHead (Some TinyModel) ''tiny-model'' [] [] =
          Inr (r, [AlreadyCached ''/home/tiny-model/tiny-model.pdparams''] @
            (if filter (\<lambda>k. \<not> startswith k (base_model_prefix TinyHead))
                  (map fst (state_dict (m_layer ?m))) = [] then []
             else [NotInitialized (m_class ?m)
                     (filter (\<lambda>k. \<not> startswith k (base_model_prefix TinyHead))
                        (map fst (state_dict (m_layer ?m))))]))"
    and subs: "l_subs (m_layer (returned_model r)) =
                 map (\<lambda>nl. if fst nl = base_model_prefix TinyHead
                            then (fst nl, set_state_dict (snd nl) [(''w'', 3), (''b'', 4)]) else nl)
                   (l_subs (m_layer ?m))"
    and params: "l_params (m_layer (returned_model r)) = l_params (m_layer ?m)"
    and kept: "\<forall>k. \<not> startswith k (base_model_prefix TinyHead @ ''.'') \<longrightarrow>
                 map_of (state_dict (m_layer (returned_model r))) k =
                 map_of (state_dict (m_layer ?m)) k"
    by blast
  have 1: "from_pretrained (tiny_env True) () TinyHead (Some TinyModel) ''tiny-model'' [] [] =
             Inr (r, [AlreadyCached ''/home/tiny-model/tiny-model.pdparams'',
                      NotInitialized ''TinyHead'' [''classifier'']])"
    using r by (simp add: pre sd startswith_def)
  have 2: "m_layer (returned_model r) =
             Layer [(''classifier'', 5)] [(''tiny'', Layer [(''w'', 3), (''b'', 4)] [])]"
    using subs params by (cases "m_layer (returned_model r)") (simp add: pre tiny_layer_def)
  have 3: "map_of (state_dict (m_layer (returned_model r))) ''classifier'' = Some 5"
    using kept [rule_format, of "''classifier''"] by (simp add: pre sd startswith_def)
  show ?thesis using has none 1 2 3 by blast
qed

text \<open>
  What the source does when the model has no attribute \<open>base_model_prefix\<close> and keys of
  the state start with the prefix: each such key loses its first
  \<open>len(base_model_prefix + ".")\<close> characters, whatever stands where the dot would be, and
  only the keys that do not start with the prefix are reported.
\<close>

lemma checkpoint_into_base_model:
  assumes prep: "prepare_model env w cls bmc name args kwargs = Inr (m, resolved, w', log)"
      and res: "map snd resolved = weight_path # others"
      and suf: "endswith weight_path ''.pdparams''"
      and load: "paddle_load env w' weight_path = Inr state"
      and nohas: "\<not> hasattr m (base_model_prefix cls)"
      and carried: "list_ex (\<lambda>k. startswith k (base_model_prefix cls)) (map fst state)
                    \<or> list_all (\<lambda>k. startswith k (base_model_prefix cls)) (map fst state)"
  shows "\<exists>r. from_pretrained env w cls bmc name args kwargs =
               Inr (r, log @
                 (if filter (\<lambda>k. \<not> startswith k (base_model_prefix cls)) (map fst state) = []
                  then []
                  else [NotUsed (m_class m)
                          (filter (\<lambda>k. \<not> startswith k (base_model_prefix cls)) (map fst state))]))
           \<and> returned_model r =
               with_layer m (set_state_dict (m_layer m)
                 (dict_update []
                    (map (\<lambda>kv. (drop (length (base_model_prefix cls @ ''.'')) (fst kv), snd kv))
                       (filter (\<lambda>kv. startswith (fst kv) (base_model_prefix cls)) state))))"
proof -
  let ?stripped = "dict_update []
                    (map (\<lambda>kv. (drop (length (base_model_prefix cls @ ''.'')) (fst kv), snd kv))
                       (filter (\<lambda>kv. startswith (fst kv) (base_model_prefix cls)) state))"
  let ?m' = "with_layer m (set_state_dict (m_layer m) ?stripped)"
  let ?r = "if in_dynamic_mode env w' then Dynamic ?m' else Static ?m' ?stripped"
  have "from_pretrained env w cls bmc name args kwargs =
          Inr (?r, log @
                 (if filter (\<lambda>k. \<not> startswith k (base_model_prefix cls)) (map fst state) = []
                  then []
                  else [NotUsed (m_class m)
                          (filter (\<lambda>k. \<not> startswith k (base_model_prefix cls)) (map fst state))]))"
    by (simp add: from_pretrained_prepared [OF prep] load_weights_read [OF res suf load]
          reconcile_base [OF nohas carried] load_into_def)
  moreover have "returned_model ?r = ?m'" by simp
  ultimately show ?thesis by blast
qed

text \<open>
  Claim C2. The source tests \<open>k.startswith(base_model_prefix)\<close> and cuts
  \<open>len(base_model_prefix + ".")\<close> characters (lines 260 to 263). In the directory \<open>slip\<close>
  the weight file has the keys \<open>tiny.w\<close>, \<open>tiny.b\<close> and \<open>tiny_w\<close>, which all start with
  the prefix \<open>tiny\<close>. The key \<open>tiny_w\<close> does not carry the prefix and the dot; it is cut
  to \<open>w\<close> all the same, its tensor replaces the one of \<open>tiny.w\<close>, and no key is reported
  as unexpected.
\<close>

theorem key_without_dot_is_cut:
  "from_pretrained (tiny_env True) () TinyModel (Some TinyModel) ''slip'' [] [] =
     Inr (Dynamic (Model ''TinyModel''
                     [(''hidden_size'', VInt 8), (''init_class'', VStr ''TinyModel'')]
                     (Layer [(''w'', 1), (''b'', 8)] []) tiny_attrs),
          [])"
  by (simp add: from_pretrained_def load_weights_def reconcile_def hasattr_def has_sublayer_def
        strip_prefix_def load_into_def with_layer_def tiny_layer_def tiny_attrs_def eval_defs
        TinyModel_def world_defs)

subsection \<open>Splitting the configuration\<close>

lemma split_config_base:
  "split_config base_name (VStr base_name) init_args init_kwargs =
     Inr \<lparr>base_args = init_args, base_kwargs = init_kwargs, derived_args = [],
          derived_kwargs = [], base_arg_index = None\<rparr>"
  by (simp add: split_config_def)

text \<open>What the first marker of a search is.\<close>

lemma first_positional_is_first:
  "first_positional args = Some a \<longleftrightarrow>
     (\<exists>i<length args. is_marker (args ! i) \<and> a = args ! i \<and> (\<forall>j<i. \<not> is_marker (args ! j)))"
  by (simp add: first_positional_def find_Some_iff)

lemma first_keyword_is_first:
  "first_keyword kwargs = Some kv \<longleftrightarrow>
     (\<exists>i<length kwargs. is_marker (snd (kwargs ! i)) \<and> kv = kwargs ! i
        \<and> (\<forall>j<i. \<not> is_marker (snd (kwargs ! j))))"
  by (simp add: first_keyword_def find_Some_iff)

lemma no_first_marker:
  "first_positional args = None \<longleftrightarrow> (\<forall>a \<in> set args. \<not> is_marker a)"
  "first_keyword kwargs = None \<longleftrightarrow> (\<forall>kv \<in> set kwargs. \<not> is_marker (snd kv))"
  by (auto simp: first_positional_def first_keyword_def find_None_iff)
















subsection \<open>Constructing the model\<close>

text \<open>
  Claim C4. A base model whose marker was found under a keyword is not substituted: the
  source records the keyword as \<open>base_arg_index\<close> and then indexes the list
  \<open>derived_args\<close> with it (line 233), which raises a \<open>TypeError\<close>. The directory \<open>kw\<close> is
  what \<open>save_pretrained\<close> writes for \<open>TinyHead(tiny=tiny_model, num_labels=2)\<close>.
\<close>

theorem keyword_position_raises:
  "from_pretrained (tiny_env True) () TinyHead (Some TinyModel) ''kw'' [] []
   = Inl (TypeError ''list indices must be integers or slices, not str'')"
  by (simp add: from_pretrained_def eval_defs TinyHead_def TinyModel_def world_defs)

text \<open>
  The same holds for every derived class and every configuration whose marker is a
  keyword. A positional marker, and a configuration with no position for the base
  model, are handled as the claim says.
\<close>

lemma keyword_index_is_not_a_list_index:
  assumes "cls_name cls \<noteq> cls_name base"
      and "base_arg_index s = Some (Keyword k)"
      and "call base (base_args s) (update_known (init_parameters base) (base_kwargs s) kwargs)
             = Inr base_model"
  shows "construct cls base args kwargs s =
           Inl (TypeError ''list indices must be integers or slices, not str'')"
  using assms by (simp add: construct_def place_base_model_def)

lemma base_model_placed:
  assumes "cls_name cls \<noteq> cls_name base"
      and "call base (base_args s) (update_known (init_parameters base) (base_kwargs s) kwargs)
             = Inr base_model"
  shows "base_arg_index s = Some (Positional i) \<Longrightarrow> i < length (derived_args s) \<Longrightarrow>
           construct cls base [] kwargs s =
             cls_init cls ((derived_args s)[i := VModel base_model])
               (update_known (init_parameters cls) (derived_kwargs s) kwargs)"
    and "base_arg_index s = None \<Longrightarrow>
           construct cls base [] kwargs s =
             cls_init cls [VModel base_model]
               (update_known (init_parameters cls) (derived_kwargs s) kwargs)"
  using assms by (simp_all add: construct_def place_base_model_def)

lemma load_into_same:
  assumes "load_into m target state = Inr m'"
  shows "m_class m' = m_class m \<and> init_config m' = init_config m \<and> m_attrs m' = m_attrs m"
  using assms
  by (cases target) (auto simp: load_into_def with_layer_def split: if_splits)

lemma load_weights_same:
  assumes "load_weights env w cls m resolved = Inr (r, lg)"
  shows "m_class (returned_model r) = m_class m \<and> init_config (returned_model r) = init_config m
       \<and> m_attrs (returned_model r) = m_attrs m"
proof -
  from assms obtain state m' where
    into: "load_into m (model_to_load (reconcile (base_model_prefix cls) m state))
             (state_to_load (reconcile (base_model_prefix cls) m state)) = Inr m'"
    and r: "returned_model r = m'"
    by (auto simp: load_weights_def Let_def split: list.splits if_splits sum.splits)
  from load_into_same [OF into] r show ?thesis by simp
qed

lemma pop_init_eq:
  "pop_init base_name loaded =
     ((case map_of loaded ''init_args'' of None \<Rightarrow> VTuple [] | Some a \<Rightarrow> a),
      (case map_of loaded ''init_class'' of None \<Rightarrow> VStr base_name | Some c \<Rightarrow> c),
      dict_del (dict_del loaded ''init_args'') ''init_class'')"
  by (simp add: pop_init_def map_of_dict_del_other)

text \<open>
  Claim C5. When the class is its own registered base model class, the constructor is
  called once, with the explicit positional arguments if there are any and the loaded
  ones otherwise, never with both, and with the loaded keyword arguments updated by the
  explicit ones (an explicit value wins at its key). The weights are loaded into the
  instance it returns, and that instance is the model \<open>from_pretrained\<close> returns. For a
  configuration written for the base class itself, the loaded arguments are the
  configuration's \<open>init_args\<close> and its other entries.
\<close>

theorem base_class_overrides:
  assumes rc: "read_config env w cls name = Inr (loaded, resolved, w', log)"
      and same: "cls_name cls = cls_name base"
      and sp: "split_config (cls_name base)
                 (case map_of loaded ''init_class'' of
                    None \<Rightarrow> VStr (cls_name base) | Some c \<Rightarrow> c)
                 (case map_of loaded ''init_args'' of None \<Rightarrow> VTuple [] | Some a \<Rightarrow> a)
                 (dict_del (dict_del loaded ''init_args'') ''init_class'') = Inr s"
      and it: "args = [] \<longrightarrow> py_iter (base_args s) = Inr loaded_args"
      and dk: "distinct (map fst kwargs)"
  shows "from_pretrained env w cls (Some base) name args kwargs =
           (case cls_init cls (if args = [] then loaded_args else args)
                   (dict_update (base_kwargs s) kwargs) of
              Inl e \<Rightarrow> Inl e
            | Inr m \<Rightarrow>
                (case load_weights env w' cls m resolved of
                   Inl e \<Rightarrow> Inl e
                 | Inr (r, lg) \<Rightarrow> Inr (r, log @ lg)))
       \<and> map_of (dict_update (base_kwargs s) kwargs) = map_of (base_kwargs s) ++ map_of kwargs
       \<and> (\<forall>r lg. from_pretrained env w cls (Some base) name args kwargs = Inr (r, lg) \<longrightarrow>
             (\<exists>m. cls_init cls (if args = [] then loaded_args else args)
                     (dict_update (base_kwargs s) kwargs) = Inr m
                 \<and> m_class (returned_model r) = m_class m
                 \<and> init_config (returned_model r) = init_config m
                 \<and> m_attrs (returned_model r) = m_attrs m))
       \<and> (map_of loaded ''init_class'' = None
            \<or> map_of loaded ''init_class'' = Some (VStr (cls_name base)) \<longrightarrow>
             base_args s = (case map_of loaded ''init_args'' of None \<Rightarrow> VTuple [] | Some a \<Rightarrow> a)
           \<and> base_kwargs s = dict_del (dict_del loaded ''init_args'') ''init_class'')"
proof -
  let ?pos = "if args = [] then loaded_args else args"
  let ?kw = "dict_update (base_kwargs s) kwargs"
  have con: "construct cls base args kwargs s = cls_init cls ?pos ?kw"
    using same it by (simp add: construct_def call_def py_iter_def)
  have prep: "prepare_model env w cls (Some base) name args kwargs =
                (case cls_init cls ?pos ?kw of
                   Inl e \<Rightarrow> Inl e
                 | Inr m \<Rightarrow> Inr (m, resolved, w', log))"
    by (simp add: prepare_model_def rc pop_init_eq sp con)
  have 1: "from_pretrained env w cls (Some base) name args kwargs =
             (case cls_init cls ?pos ?kw of
                Inl e \<Rightarrow> Inl e
              | Inr m \<Rightarrow>
                  (case load_weights env w' cls m resolved of
                     Inl e \<Rightarrow> Inl e
                   | Inr (r, lg) \<Rightarrow> Inr (r, log @ lg)))"
    by (simp add: from_pretrained_def prep split: sum.splits)
  have 2: "map_of ?kw = map_of (base_kwargs s) ++ map_of kwargs"
    using dk by (rule map_of_dict_update)
  have 3: "\<forall>r lg. from_pretrained env w cls (Some base) name args kwargs = Inr (r, lg) \<longrightarrow>
             (\<exists>m. cls_init cls ?pos ?kw = Inr m
                 \<and> m_class (returned_model r) = m_class m
                 \<and> init_config (returned_model r) = init_config m
                 \<and> m_attrs (returned_model r) = m_attrs m)"
  proof (intro allI impI)
    fix r lg
    assume "from_pretrained env w cls (Some base) name args kwargs = Inr (r, lg)"
    with 1 obtain m lg' where m: "cls_init cls ?pos ?kw = Inr m"
      and lw: "load_weights env w' cls m resolved = Inr (r, lg')"
      by (auto split: sum.splits)
    from load_weights_same [OF lw] m
    show "\<exists>m. cls_init cls ?pos ?kw = Inr m
                 \<and> m_class (returned_model r) = m_class m
                 \<and> init_config (returned_model r) = init_config m
                 \<and> m_attrs (returned_model r) = m_attrs m"
      by blast
  qed
  have 4: "map_of loaded ''init_class'' = None
            \<or> map_of loaded ''init_class'' = Some (VStr (cls_name base)) \<longrightarrow>
             base_args s = (case map_of loaded ''init_args'' of None \<Rightarrow> VTuple [] | Some a \<Rightarrow> a)
           \<and> base_kwargs s = dict_del (dict_del loaded ''init_args'') ''init_class''"
    using sp by (auto simp: split_config_base)
  show ?thesis using 1 2 3 4 by blast
qed

theorem base_class_overrides_witness:
  "read_config (tiny_env True) () TinyModel ''plain'' =
     Inr ([(''num_layers'', VInt 2), (''init_args'', VList [VInt 4]),
           (''init_class'', VStr ''TinyModel'')],
          [(''model_state'', ''plain/model_state.pdparams'')], (), [])
   \<and> distinct (map fst [(''num_layers'', VInt 3)])
   \<and> from_pretrained (tiny_env True) () TinyModel (Some TinyModel) ''plain''
        [VInt 32] [(''num_layers'', VInt 3)] =
       Inr (Dynamic (Model ''TinyModel''
                       [(''num_layers'', VInt 3), (''init_args'', VTuple [VInt 32]),
                        (''init_class'', VStr ''TinyModel'')]
                       (Layer [(''w'', 5), (''b'', 6)] []) tiny_attrs), [])
   \<and> from_pretrained (tiny_env True) () TinyModel (Some TinyModel) ''plain''
        [] [(''num_layers'', VInt 3)] =
       Inr (Dynamic (Model ''TinyModel''
                       [(''num_layers'', VInt 3), (''init_args'', VTuple [VInt 4]),
                        (''init_class'', VStr ''TinyModel'')]
                       (Layer [(''w'', 5), (''b'', 6)] []) tiny_attrs), [])"
proof -
  let ?loaded = "[(''num_layers'', VInt 2), (''init_args'', VList [VInt 4]),
                  (''init_class'', VStr ''TinyModel'')]"
  let ?s = "\<lparr>base_args = VList [VInt 4], base_kwargs = [(''num_layers'', VInt 2)],
             derived_args = [], derived_kwargs = [], base_arg_index = None\<rparr>"
  have name: "cls_name TinyModel = ''TinyModel''" by (simp add: TinyModel_def)
  have rc: "read_config (tiny_env True) () TinyModel ''plain'' =
              Inr (?loaded, [(''model_state'', ''plain/model_state.pdparams'')], (), [])"
    by (simp add: eval_defs TinyModel_def world_defs)
  have sp: "split_config (cls_name TinyModel)
              (case map_of ?loaded ''init_class'' of
                 None \<Rightarrow> VStr (cls_name TinyModel) | Some c \<Rightarrow> c)
              (case map_of ?loaded ''init_args'' of None \<Rightarrow> VTuple [] | Some a \<Rightarrow> a)
              (dict_del (dict_del ?loaded ''init_args'') ''init_class'') = Inr ?s"
    by (simp add: name split_config_def dict_del_def)
  have it1: "[VInt 32] = [] \<longrightarrow> py_iter (base_args ?s) = Inr [VInt 4]" by simp
  have it2: "([]::val list) = [] \<longrightarrow> py_iter (base_args ?s) = Inr [VInt 4]"
    by (simp add: py_iter_def)
  have dk: "distinct (map fst [(''num_layers'', VInt 3)])" by simp
  have lw: "\<And>cfg. load_weights (tiny_env True) () TinyModel
              (Model ''TinyModel'' cfg tiny_layer tiny_attrs)
              [(''model_state'', ''plain/model_state.pdparams'')]
            = Inr (Dynamic (Model ''TinyModel'' cfg (Layer [(''w'', 5), (''b'', 6)] []) tiny_attrs),
                   [])"
    by (simp add: load_weights_def reconcile_def hasattr_def has_sublayer_def load_into_def
          with_layer_def tiny_layer_def tiny_attrs_def TinyModel_def world_defs endswith_def
          startswith_def)
  have 1: "from_pretrained (tiny_env True) () TinyModel (Some TinyModel) ''plain''
             [VInt 32] [(''num_layers'', VInt 3)] =
           Inr (Dynamic (Model ''TinyModel''
                           [(''num_layers'', VInt 3), (''init_args'', VTuple [VInt 32]),
                            (''init_class'', VStr ''TinyModel'')]
                           (Layer [(''w'', 5), (''b'', 6)] []) tiny_attrs), [])"
  proof -
    have "cls_init TinyModel [VInt 32] (dict_update (base_kwargs ?s) [(''num_layers'', VInt 3)])
          = Inr (Model ''TinyModel''
                   [(''num_layers'', VInt 3), (''init_args'', VTuple [VInt 32]),
                    (''init_class'', VStr ''TinyModel'')] tiny_layer tiny_attrs)"
      by (simp add: TinyModel_def tiny_model_init_def bind_arguments_def tracked_def
            dict_update_def)
    with base_class_overrides [OF rc refl sp it1 dk, THEN conjunct1] show ?thesis
      by (simp add: lw)
  qed
  have 2: "from_pretrained (tiny_env True) () TinyModel (Some TinyModel) ''plain''
             [] [(''num_layers'', VInt 3)] =
           Inr (Dynamic (Model ''TinyModel''
                           [(''num_layers'', VInt 3), (''init_args'', VTuple [VInt 4]),
                            (''init_class'', VStr ''TinyModel'')]
                           (Layer [(''w'', 5), (''b'', 6)] []) tiny_attrs), [])"
  proof -
    have "cls_init TinyModel [VInt 4] (dict_update (base_kwargs ?s) [(''num_layers'', VInt 3)])
          = Inr (Model ''TinyModel''
                   [(''num_layers'', VInt 3), (''init_args'', VTuple [VInt 4]),
                    (''init_class'', VStr ''TinyModel'')] tiny_layer tiny_attrs)"
      by (simp add: TinyModel_def tiny_model_init_def bind_arguments_def tracked_def
            dict_update_def)
    with base_class_overrides [OF rc refl sp it2 dk, THEN conjunct1] show ?thesis
      by (simp add: lw)
  qed
  show ?thesis using rc dk 1 2 by blast
qed

subsection \<open>Saving the configuration\<close>








end
